theory Spec2Isabelle
  imports Complex_Main
begin

section \<open>The JavaScript runtime the expiry engine calls\<close>

text \<open>
  The expiry engine lives in \<^verbatim>\<open>src/services/notificationService.js\<close> and \<^verbatim>\<open>App.js\<close>.
  It calls the JavaScript \<^verbatim>\<open>Date\<close> object, \<^verbatim>\<open>parseInt\<close>, \<^verbatim>\<open>String.prototype.split\<close> and the
  expo-notifications module. None of these is code of the repository, so they appear here as
  follows.

  \<^item> A time value is an integer number of milliseconds since the epoch; \<open>None\<close> is the
    time value NaN of an Invalid Date. Numbers are exact integers: the rounding of IEEE
    doubles beyond \<open>2^53\<close> is not modelled.
  \<^item> What \<^verbatim>\<open>new Date(string)\<close> accepts is implementation-defined, so the native parser is
    the parameter \<open>nativeParse\<close> of the environment.
  \<^item> The time zone is the pair of parameters \<open>LocalTime\<close> and \<open>UTC\<close> (the abstract
    operations of the language standard); nothing is assumed about them.
  \<^item> A string is the list of the bytes of its UTF-8 encoding, so a character beyond ASCII
    is two to four bytes and the separators, signs and digits are single bytes.
\<close>

type_synonym time_value = "int option"

datatype platform = Web | Android | Ios

datatype perm_status = Granted | Denied | Undetermined

datatype status = Fresh | Expiring | Expired

datatype trigger = Immediate | At time_value

datatype js_exn = TypeError | RejectedPromise

record request =
  title :: string
  body :: string
  itemId :: string
  itemName :: string
  dataType :: string
  sound :: bool
  priority :: "string option"
  trigger :: trigger

record env =
  nativeParse :: "string \<Rightarrow> time_value"
  LocalTime :: "int \<Rightarrow> int"
  UTC :: "int \<Rightarrow> int"
  os :: platform
  cancelThrows :: bool
  getPermissionsThrows :: bool
  requestPermissionsThrows :: bool
  requestOutcome :: perm_status
  setChannelThrows :: bool
  scheduleThrows :: "request \<Rightarrow> bool"

definition msPerDay :: int where
  "msPerDay = 1000 * 60 * 60 * 24"

definition msPerHour :: int where
  "msPerHour = 1000 * 60 * 60"

definition Day :: "int \<Rightarrow> int" where
  "Day t = t div msPerDay"

definition TimeWithinDay :: "int \<Rightarrow> int" where
  "TimeWithinDay t = t mod msPerDay"

definition TimeClip :: "int \<Rightarrow> time_value" where
  "TimeClip t = (if \<bar>t\<bar> > 8640000000000000 then None else Some t)"

definition DayFromYear :: "int \<Rightarrow> int" where
  "DayFromYear y =
     365 * (y - 1970) + (y - 1969) div 4 - (y - 1901) div 100 + (y - 1601) div 400"

definition InLeapYear :: "int \<Rightarrow> bool" where
  "InLeapYear y =
     (if y mod 4 \<noteq> 0 then False
      else if y mod 100 \<noteq> 0 then True
      else if y mod 400 \<noteq> 0 then False
      else True)"

text \<open>The day within the year on which month \<open>mn\<close> (0 to 11) starts.\<close>

definition monthStart :: "int \<Rightarrow> bool \<Rightarrow> int" where
  "monthStart mn leap =
     (if mn = 0 then 0
      else if mn = 1 then 31
      else (if leap then 1 else 0) +
        (if mn = 2 then 59 else if mn = 3 then 90 else if mn = 4 then 120
         else if mn = 5 then 151 else if mn = 6 then 181 else if mn = 7 then 212
         else if mn = 8 then 243 else if mn = 9 then 273 else if mn = 10 then 304
         else 334))"

text \<open>
  \<^verbatim>\<open>MakeDay(year, month, date)\<close>: months beyond 0..11 carry into the year, days beyond the
  month carry into the following months. It is NaN when the first of the month is not a
  time value.
\<close>

definition MakeDay :: "int \<Rightarrow> int \<Rightarrow> int \<Rightarrow> int option" where
  "MakeDay year month date =
     (let ym = year + month div 12;
          mn = month mod 12;
          first = DayFromYear ym + monthStart mn (InLeapYear ym)
      in if TimeClip (first * msPerDay) = None then None else Some (first + date - 1))"

text \<open>\<^verbatim>\<open>new Date(y, m, d)\<close> on three numbers that are not NaN: a local date at midnight.\<close>

definition newDate_ymd :: "env \<Rightarrow> int \<Rightarrow> int \<Rightarrow> int \<Rightarrow> time_value" where
  "newDate_ymd E y m d =
     (let yr = (if 0 \<le> y \<and> y \<le> 99 then 1900 + y else y)
      in case MakeDay yr m d of
           None \<Rightarrow> None
         | Some dy \<Rightarrow> TimeClip (UTC E (dy * msPerDay)))"

text \<open>
  \<^verbatim>\<open>new Date(string)\<close>. The constructor parses the string and stores NaN when the parse
  fails; it has no path that throws, so the result is always on the right.
\<close>

definition newDate_string :: "env \<Rightarrow> string \<Rightarrow> js_exn + time_value" where
  "newDate_string E s = Inr (nativeParse E s)"

text \<open>\<^verbatim>\<open>d.setHours(h, 0, 0, 0)\<close> on a valid date: the new time value of \<open>d\<close>.\<close>

definition setHours :: "env \<Rightarrow> int \<Rightarrow> int \<Rightarrow> time_value" where
  "setHours E h t = TimeClip (UTC E (Day (LocalTime E t) * msPerDay + h * msPerHour))"

text \<open>
  \<^verbatim>\<open>d.setDate(d.getDate() - k)\<close> on a valid date. The standard computes
  \<^verbatim>\<open>MakeDay(YearFromTime(t), MonthFromTime(t), DateFromTime(t) - k)\<close> on the local time
  \<open>t\<close>, which is the day number of \<open>t\<close> less \<open>k\<close>; the time within the day is kept.
\<close>

definition setDateBack :: "env \<Rightarrow> int \<Rightarrow> int \<Rightarrow> time_value" where
  "setDateBack E k t =
     (let l = LocalTime E t
      in TimeClip (UTC E ((Day l - k) * msPerDay + TimeWithinDay l)))"

text \<open>\<^verbatim>\<open>Math.ceil((a - b) / (1000 * 60 * 60 * 24))\<close>; NaN when an operand is NaN.\<close>

definition ceilDays :: "time_value \<Rightarrow> time_value \<Rightarrow> int option" where
  "ceilDays a b =
     (case (a, b) of
        (Some x, Some y) \<Rightarrow> Some (- ((- (x - y)) div msPerDay))
      | _ \<Rightarrow> None)"

text \<open>Comparisons of a number that may be NaN with a constant: false on NaN.\<close>

definition numLt :: "int option \<Rightarrow> int \<Rightarrow> bool" where
  "numLt a k = (case a of None \<Rightarrow> False | Some x \<Rightarrow> x < k)"

definition numLe :: "int option \<Rightarrow> int \<Rightarrow> bool" where
  "numLe a k = (case a of None \<Rightarrow> False | Some x \<Rightarrow> x \<le> k)"

definition numGe :: "int option \<Rightarrow> int \<Rightarrow> bool" where
  "numGe a k = (case a of None \<Rightarrow> False | Some x \<Rightarrow> x \<ge> k)"

subsection \<open>Strings\<close>

text \<open>\<^verbatim>\<open>s.split(/[\/\-]/)\<close>: the pieces of \<open>s\<close> between the separators, never an empty list.\<close>

definition isSep :: "char \<Rightarrow> bool" where
  "isSep c = (c = CHR ''/'' \<or> c = CHR ''-'')"

fun split_sep :: "string \<Rightarrow> string list" where
  "split_sep [] = [[]]"
| "split_sep (c # cs) =
     (if isSep c then [] # split_sep cs
      else (case split_sep cs of [] \<Rightarrow> [[c]] | w # ws \<Rightarrow> (c # w) # ws))"

text \<open>
  The white space and line terminators that \<^verbatim>\<open>parseInt\<close> skips. In one byte: tab, line
  feed, vertical tab, form feed, carriage return and space. In two bytes: the no-break space
  U+00A0. In three bytes: U+1680, U+2000 to U+200A, the line and paragraph separators U+2028
  and U+2029, U+202F, U+205F, U+3000 and the byte order mark U+FEFF.
\<close>

definition isWhite :: "char \<Rightarrow> bool" where
  "isWhite c = (c \<in> set [CHR 0x09, CHR 0x0A, CHR 0x0B, CHR 0x0C, CHR 0x0D, CHR 0x20])"

definition isWhite2 :: "char \<Rightarrow> char \<Rightarrow> bool" where
  "isWhite2 a b = (a = CHR 0xC2 \<and> b = CHR 0xA0)"

definition isWhite3 :: "char \<Rightarrow> char \<Rightarrow> char \<Rightarrow> bool" where
  "isWhite3 a b c =
     ((a, b, c) \<in> set
       [(CHR 0xE1, CHR 0x9A, CHR 0x80),
        (CHR 0xE2, CHR 0x80, CHR 0x80),
        (CHR 0xE2, CHR 0x80, CHR 0x81),
        (CHR 0xE2, CHR 0x80, CHR 0x82),
        (CHR 0xE2, CHR 0x80, CHR 0x83),
        (CHR 0xE2, CHR 0x80, CHR 0x84),
        (CHR 0xE2, CHR 0x80, CHR 0x85),
        (CHR 0xE2, CHR 0x80, CHR 0x86),
        (CHR 0xE2, CHR 0x80, CHR 0x87),
        (CHR 0xE2, CHR 0x80, CHR 0x88),
        (CHR 0xE2, CHR 0x80, CHR 0x89),
        (CHR 0xE2, CHR 0x80, CHR 0x8A),
        (CHR 0xE2, CHR 0x80, CHR 0xA8),
        (CHR 0xE2, CHR 0x80, CHR 0xA9),
        (CHR 0xE2, CHR 0x80, CHR 0xAF),
        (CHR 0xE2, CHR 0x81, CHR 0x9F),
        (CHR 0xE3, CHR 0x80, CHR 0x80),
        (CHR 0xEF, CHR 0xBB, CHR 0xBF)])"

fun skipWhite :: "string \<Rightarrow> string" where
  "skipWhite [] = []"
| "skipWhite (a # r) =
     (if isWhite a then skipWhite r
      else (case r of
              [] \<Rightarrow> a # r
            | b # r2 \<Rightarrow>
                if isWhite2 a b then skipWhite r2
                else (case r2 of
                        [] \<Rightarrow> a # r
                      | c # r3 \<Rightarrow> if isWhite3 a b c then skipWhite r3 else a # r)))"

definition isDigit :: "char \<Rightarrow> bool" where
  "isDigit c = (c \<in> set ''0123456789'')"

definition digitsValue :: "string \<Rightarrow> int" where
  "digitsValue ds = foldl (\<lambda>a c. 10 * a + (of_char c - 48)) 0 ds"

text \<open>
  \<^verbatim>\<open>parseInt(p, 10)\<close>: leading white space and one sign are skipped, the longest run of
  ASCII digits is read and the rest is ignored; NaN when there is no digit.
\<close>

definition parseInt :: "string \<Rightarrow> int option" where
  "parseInt p =
     (let s1 = skipWhite p;
          neg = (case s1 of c # _ \<Rightarrow> c = CHR ''-'' | [] \<Rightarrow> False);
          s2 = (case s1 of c # r \<Rightarrow> if c = CHR ''-'' \<or> c = CHR ''+'' then r else s1 | [] \<Rightarrow> s1);
          ds = takeWhile isDigit s2
      in if ds = [] then None
         else Some (if neg then - digitsValue ds else digitsValue ds))"

section \<open>Items\<close>

text \<open>
  A pantry item as the remote store returns it. The fields the engine never reads
  (category, value and whatever else the store sends) are the extension of the record, so
  the spread \<^verbatim>\<open>{...item, status: s}\<close> is the record update of \<open>status\<close>.
\<close>

record item =
  item_id :: string
  name :: string
  quantity :: string
  expiry_date :: "string option"
  emoji :: "string option"
  status :: "status option"

section \<open>calculateExpiryStatus\<close>

text \<open>
  Lines 69 to 75 and 133 to 139: the day-first reading of \<^verbatim>\<open>d/m/y\<close> or \<^verbatim>\<open>d-m-y\<close>. The
  result is \<open>None\<close> when the branch assigns nothing to \<^verbatim>\<open>expiryDate\<close>.
\<close>

definition dayFirst :: "env \<Rightarrow> string \<Rightarrow> time_value option" where
  "dayFirst E s =
     (case map parseInt (split_sep s) of
        [d, m, y] \<Rightarrow>
          (case (d, m, y) of
             (Some d', Some m', Some y') \<Rightarrow> Some (newDate_ymd E y' (m' - 1) d')
           | _ \<Rightarrow> None)
      | _ \<Rightarrow> None)"

text \<open>
  Lines 62 to 76. \<^verbatim>\<open>expiryDate\<close> starts as null; the try block assigns the constructed
  date, the catch block runs the day-first reading. \<open>None\<close> is null, \<open>Some None\<close> an
  Invalid Date.
\<close>

definition statusDate :: "env \<Rightarrow> string \<Rightarrow> time_value option" where
  "statusDate E s =
     (case newDate_string E s of
        Inr d \<Rightarrow> Some d
      | Inl _ \<Rightarrow> dayFirst E s)"

text \<open>
  Lines 83 to 97, on a valid date \<open>t\<close> and the clock reading \<open>now\<close>. The function reads
  the clock itself (\<^verbatim>\<open>new Date()\<close>); here the reading is an argument. The outer
  \<^verbatim>\<open>try\<close> of the function encloses no call that throws on a string, so its \<^verbatim>\<open>catch\<close> has
  no branch of its own.
\<close>

definition daysUntilExpiry :: "env \<Rightarrow> int \<Rightarrow> int \<Rightarrow> int option" where
  "daysUntilExpiry E now t = ceilDays (setHours E 0 t) (setHours E 0 now)"

definition statusOfDays :: "int option \<Rightarrow> status" where
  "statusOfDays d =
     (if numLt d 0 then Expired
      else if numLe d 3 then Expiring
      else Fresh)"

definition calculateExpiryStatus :: "env \<Rightarrow> int \<Rightarrow> string option \<Rightarrow> status" where
  "calculateExpiryStatus E now expiryDateStr =
     (case expiryDateStr of
        None \<Rightarrow> Fresh
      | Some s \<Rightarrow>
          if s = [] then Fresh
          else (case statusDate E s of
                  None \<Rightarrow> Fresh
                | Some None \<Rightarrow> Fresh
                | Some (Some t) \<Rightarrow> statusOfDays (daysUntilExpiry E now t)))"

section \<open>The notification subsystem\<close>

text \<open>
  The state of expo-notifications that the engine can change: the permission, the requests
  waiting for their date, the requests shown at once (a null trigger), the Android channels,
  and the console. \<open>attempts\<close> records every call of \<^verbatim>\<open>scheduleNotificationAsync\<close> in
  order, whether it was accepted or not. Whether a call is refused is a parameter of the
  environment, a function of the request.
\<close>

datatype log_entry =
  PermissionsNotGranted
| ErrorRequestingPermissions js_exn
| ErrorSchedulingItem string js_exn
| ErrorSchedulingExpiry js_exn

record notif =
  permission :: perm_status
  scheduled :: "request list"
  presented :: "request list"
  channels :: "string list"
  console :: "log_entry list"
  attempts :: "request list"

text \<open>
  A call that may throw returns the state it leaves behind on both sides: \<open>Inl\<close> carries the
  exception and the state at the throw.
\<close>

type_synonym 'a result = "(js_exn \<times> notif) + 'a"

definition scheduleNotificationAsync :: "env \<Rightarrow> request \<Rightarrow> notif \<Rightarrow> notif result" where
  "scheduleNotificationAsync E r st =
     (let st1 = st\<lparr>attempts := attempts st @ [r]\<rparr>
      in if scheduleThrows E r then Inl (RejectedPromise, st1)
         else Inr (case trigger r of
                     Immediate \<Rightarrow> st1\<lparr>presented := presented st1 @ [r]\<rparr>
                   | At _ \<Rightarrow> st1\<lparr>scheduled := scheduled st1 @ [r]\<rparr>))"

definition cancelAllScheduledNotificationsAsync :: "env \<Rightarrow> notif \<Rightarrow> notif result" where
  "cancelAllScheduledNotificationsAsync E st =
     (if cancelThrows E then Inl (RejectedPromise, st) else Inr (st\<lparr>scheduled := []\<rparr>))"

text \<open>Lines 16 to 50. The result is the \<^verbatim>\<open>granted\<close> flag and the state.\<close>

definition requestNotificationPermissions :: "env \<Rightarrow> notif \<Rightarrow> bool \<times> notif" where
  "requestNotificationPermissions E st =
     (if os E = Web then (False, st)
      else if getPermissionsThrows E then
        (False, st\<lparr>console := console st @ [ErrorRequestingPermissions RejectedPromise]\<rparr>)
      else if permission st \<noteq> Granted \<and> requestPermissionsThrows E then
        (False, st\<lparr>console := console st @ [ErrorRequestingPermissions RejectedPromise]\<rparr>)
      else
        (let st1 = (if permission st \<noteq> Granted then st\<lparr>permission := requestOutcome E\<rparr> else st)
         in if permission st1 \<noteq> Granted then
              (False, st1\<lparr>console := console st1 @ [PermissionsNotGranted]\<rparr>)
            else if os E = Android then
              (if setChannelThrows E then
                 (False, st1\<lparr>console := console st1 @ [ErrorRequestingPermissions RejectedPromise]\<rparr>)
               else (True, st1\<lparr>channels := channels st1 @ [''expiry-alerts'']\<rparr>))
            else (True, st1)))"

section \<open>scheduleExpiryNotifications\<close>

definition warningSign :: string where
  "warningSign = [CHR 0xE2, CHR 0x9A, CHR 0xA0, CHR 0xEF, CHR 0xB8, CHR 0x8F]"

definition alarmClock :: string where
  "alarmClock = [CHR 0xE2, CHR 0x8F, CHR 0xB0]"

definition calendar :: string where
  "calendar = [CHR 0xF0, CHR 0x9F, CHR 0x93, CHR 0x85]"

definition crossMark :: string where
  "crossMark = [CHR 0xE2, CHR 0x9D, CHR 0x8C]"

definition redApple :: string where
  "redApple = [CHR 0xF0, CHR 0x9F, CHR 0x8D, CHR 0x8E]"

text \<open>\<^verbatim>\<open>item.emoji || apple\<close>\<close>

definition emojiOr :: "'a item_scheme \<Rightarrow> string" where
  "emojiOr item =
     (case emoji item of None \<Rightarrow> redApple | Some e \<Rightarrow> if e = [] then redApple else e)"

text \<open>The four requests of lines 152 to 211, each with the trigger it is given.\<close>

definition expiresToday :: "'a item_scheme \<Rightarrow> time_value \<Rightarrow> request" where
  "expiresToday item t =
     \<lparr>title = warningSign @ '' '' @ emojiOr item @ '' '' @ name item @ '' expires today!'',
      body = ''Your '' @ name item @ '' expires today. Use it now to avoid waste!'',
      itemId = item_id item, itemName = name item, dataType = ''expiry'',
      sound = True, priority = Some ''high'', trigger = At t\<rparr>"

definition expiresTomorrow :: "'a item_scheme \<Rightarrow> time_value \<Rightarrow> request" where
  "expiresTomorrow item t =
     \<lparr>title = alarmClock @ '' '' @ emojiOr item @ '' '' @ name item @ '' expires tomorrow!'',
      body = ''Your '' @ name item @ '' expires tomorrow. Plan to use it soon!'',
      itemId = item_id item, itemName = name item, dataType = ''expiry'',
      sound = True, priority = Some ''high'', trigger = At t\<rparr>"

definition expiringSoon :: "'a item_scheme \<Rightarrow> time_value \<Rightarrow> request" where
  "expiringSoon item t =
     \<lparr>title = calendar @ '' '' @ emojiOr item @ '' '' @ name item @ '' expiring soon!'',
      body = ''Your '' @ name item @ '' expires in 3 days. Consider using it soon!'',
      itemId = item_id item, itemName = name item, dataType = ''expiry'',
      sound = True, priority = None, trigger = At t\<rparr>"

definition hasExpired :: "'a item_scheme \<Rightarrow> request" where
  "hasExpired item =
     \<lparr>title = crossMark @ '' '' @ emojiOr item @ '' '' @ name item @ '' has expired!'',
      body = ''Your '' @ name item @
        '' has expired. Please check if it'' @ [CHR 0x27] @ ''s still safe to consume.'',
      itemId = item_id item, itemName = name item, dataType = ''expired'',
      sound = True, priority = Some ''high'', trigger = Immediate\<rparr>"

text \<open>
  Lines 129 to 142: the date of an item in the scheduling loop. The native parse comes
  first; the day-first reading runs when the native date is invalid.
\<close>

definition scheduleDate :: "env \<Rightarrow> string \<Rightarrow> js_exn + time_value" where
  "scheduleDate E s =
     (case newDate_string E s of
        Inl e \<Rightarrow> Inl e
      | Inr d \<Rightarrow>
          Inr (if d = None then (case dayFirst E s of Some d' \<Rightarrow> d' | None \<Rightarrow> d) else d))"

text \<open>
  Lines 144 to 212 on a valid date \<open>t\<close>: the calls of \<^verbatim>\<open>scheduleNotificationAsync\<close> that
  the loop body makes, in the order it makes them, when none of them throws. \<open>today\<close> is
  the clock reading at midnight.
\<close>

definition itemRequests :: "env \<Rightarrow> time_value \<Rightarrow> 'a item_scheme \<Rightarrow> int \<Rightarrow> request list" where
  "itemRequests E today item t =
     (let expiryDate = setHours E 0 t;
          days = ceilDays expiryDate today
      in (if numGe days 0
          then [expiresToday item (Option.bind expiryDate (setHours E 9))] else []) @
         (if numGe days 1
          then [expiresTomorrow item
                  (Option.bind (Option.bind expiryDate (setDateBack E 1)) (setHours E 9))]
          else []) @
         (if numGe days 3
          then [expiringSoon item
                  (Option.bind (Option.bind expiryDate (setDateBack E 3)) (setHours E 9))]
          else []) @
         (if numLt days 0 \<and> numGe days (- 1) then [hasExpired item] else []))"

text \<open>The awaited calls in sequence: the first that throws ends the sequence.\<close>

fun attemptAll :: "env \<Rightarrow> request list \<Rightarrow> notif \<Rightarrow> notif result" where
  "attemptAll E [] st = Inr st"
| "attemptAll E (r # rs) st =
     (case scheduleNotificationAsync E r st of
        Inl x \<Rightarrow> Inl x
      | Inr st' \<Rightarrow> attemptAll E rs st')"

text \<open>Lines 129 to 212: the \<^verbatim>\<open>try\<close> block of the loop body, on a non-empty date string.\<close>

definition itemTry :: "env \<Rightarrow> time_value \<Rightarrow> 'a item_scheme \<Rightarrow> string \<Rightarrow> notif \<Rightarrow> notif result" where
  "itemTry E today item s st =
     (case scheduleDate E s of
        Inl e \<Rightarrow> Inl (e, st)
      | Inr None \<Rightarrow> Inr st
      | Inr (Some t) \<Rightarrow> attemptAll E (itemRequests E today item t) st)"

text \<open>Lines 125 to 216: one turn of the loop, with the \<^verbatim>\<open>catch\<close> of line 213.\<close>

definition scheduleItem :: "env \<Rightarrow> time_value \<Rightarrow> notif \<Rightarrow> 'a item_scheme \<Rightarrow> notif" where
  "scheduleItem E today st item =
     (case expiry_date item of
        None \<Rightarrow> st
      | Some s \<Rightarrow>
          if s = [] then st
          else (case itemTry E today item s st of
                  Inl (e, st') \<Rightarrow>
                    st'\<lparr>console := console st' @ [ErrorSchedulingItem (name item) e]\<rparr>
                | Inr st' \<Rightarrow> st'))"

definition scheduleLoop :: "env \<Rightarrow> time_value \<Rightarrow> 'a item_scheme list \<Rightarrow> notif \<Rightarrow> notif" where
  "scheduleLoop E today items st = foldl (scheduleItem E today) st items"

text \<open>Lines 108 to 220. The clock reading of line 122 is the argument \<open>now\<close>.\<close>

definition scheduleExpiryNotifications ::
  "env \<Rightarrow> int \<Rightarrow> 'a item_scheme list \<Rightarrow> notif \<Rightarrow> notif" where
  "scheduleExpiryNotifications E now items st =
     (if os E = Web then st
      else case cancelAllScheduledNotificationsAsync E st of
             Inl (e, st') \<Rightarrow> st'\<lparr>console := console st' @ [ErrorSchedulingExpiry e]\<rparr>
           | Inr st1 \<Rightarrow>
               (case requestNotificationPermissions E st1 of
                  (granted, st2) \<Rightarrow>
                    if \<not> granted then st2
                    else scheduleLoop E (setHours E 0 now) items st2))"

section \<open>checkAndUpdateExpiryStatus\<close>

text \<open>Lines 225 to 233, on values.\<close>

definition restamp :: "env \<Rightarrow> int \<Rightarrow> 'a item_scheme \<Rightarrow> 'a item_scheme" where
  "restamp E now item = item\<lparr>status := Some (calculateExpiryStatus E now (expiry_date item))\<rparr>"

definition checkAndUpdateExpiryStatus ::
  "env \<Rightarrow> int \<Rightarrow> 'a item_scheme list \<Rightarrow> 'a item_scheme list" where
  "checkAndUpdateExpiryStatus E now items = map (restamp E now) items"

text \<open>
  The same lines on a store of objects. An array is a list of addresses, an address is an
  index into the store, and the object literal of line 228 allocates at the end of the
  store. The result is \<open>None\<close> when the array holds an address that is not in the store.
\<close>

type_synonym 'a store = "'a item_scheme list"

fun checkAndUpdateExpiryStatus_store ::
  "env \<Rightarrow> int \<Rightarrow> nat list \<Rightarrow> 'a store \<Rightarrow> (nat list \<times> 'a store) option" where
  "checkAndUpdateExpiryStatus_store E now [] h = Some ([], h)"
| "checkAndUpdateExpiryStatus_store E now (a # as) h =
     (if a < length h then
        (case checkAndUpdateExpiryStatus_store E now as (h @ [restamp E now (h ! a)]) of
           None \<Rightarrow> None
         | Some (out, h') \<Rightarrow> Some (length h # out, h'))
      else None)"

section \<open>The handlers of App.js\<close>

text \<open>
  The state of the \<^verbatim>\<open>App\<close> component that the handlers change. A remote call is awaited
  by the handler; its outcome is an argument: the value it resolves to, or the message of
  the error it throws.
\<close>

datatype screen = Home | Add | Edit | Stats

record toast =
  toastType :: string
  text1 :: string
  text2 :: string

datatype 'a remote = Resolved 'a | Rejected "string option"

record 'a app =
  pantryItems :: "'a item_scheme list"
  editingItem :: "'a item_scheme option"
  currentScreen :: screen
  pantryLoading :: bool
  toasts :: "toast list"
  notifications :: notif

text \<open>\<^verbatim>\<open>error?.message || fallback\<close>\<close>

definition messageOr :: "string option \<Rightarrow> string \<Rightarrow> string" where
  "messageOr m fallback =
     (case m of None \<Rightarrow> fallback | Some t \<Rightarrow> if t = [] then fallback else t)"

text \<open>Line 199: the optimistic update, before the remote call.\<close>

definition removeLocally :: "string \<Rightarrow> 'a app \<Rightarrow> 'a app" where
  "removeLocally deletedId A =
     A\<lparr>pantryItems := filter (\<lambda>it. item_id it \<noteq> deletedId) (pantryItems A)\<rparr>"

text \<open>
  Lines 196 to 217. \<^verbatim>\<open>[...prev, item].filter(Boolean)\<close> appends the item that line 197
  found, and nothing when it found none. No other handler runs between the steps, so the
  collection the handler searches and the collection the updates start from are the same.
\<close>

definition handleDeleteItem :: "unit remote \<Rightarrow> string \<Rightarrow> 'a app \<Rightarrow> 'a app" where
  "handleDeleteItem outcome deletedId A =
     (let item = find (\<lambda>i. item_id i = deletedId) (pantryItems A);
          A1 = removeLocally deletedId A
      in case outcome of
           Resolved _ \<Rightarrow>
             A1\<lparr>toasts := toasts A1 @
               [\<lparr>toastType = ''success'', text1 = ''Item Deleted'',
                 text2 = (case item of None \<Rightarrow> ''Item''
                          | Some i \<Rightarrow> if name i = [] then ''Item'' else name i) @
                         '' has been removed''\<rparr>]\<rparr>
         | Rejected m \<Rightarrow>
             A1\<lparr>pantryItems := pantryItems A1 @ (case item of None \<Rightarrow> [] | Some i \<Rightarrow> [i]),
                toasts := toasts A1 @
               [\<lparr>toastType = ''error'', text1 = ''Delete Failed'',
                 text2 = messageOr m ''Unable to delete this item.''\<rparr>]\<rparr>)"



section \<open>What the loop attempts, item by item\<close>

text \<open>
  Two functions that only state properties of the loop. \<open>itemPlan\<close> is the list of requests
  one turn of the loop would make if none were refused; \<open>uptoRefusal\<close> is the part of such
  a list up to and including the first request the subsystem refuses.
\<close>

definition itemPlan :: "env \<Rightarrow> time_value \<Rightarrow> 'a item_scheme \<Rightarrow> request list" where
  "itemPlan E today item =
     (case expiry_date item of
        None \<Rightarrow> []
      | Some s \<Rightarrow>
          if s = [] then []
          else (case scheduleDate E s of
                  Inr (Some t) \<Rightarrow> itemRequests E today item t
                | _ \<Rightarrow> []))"

fun uptoRefusal :: "env \<Rightarrow> request list \<Rightarrow> request list" where
  "uptoRefusal E [] = []"
| "uptoRefusal E (r # rs) = r # (if scheduleThrows E r then [] else uptoRefusal E rs)"

definition refusalLog :: "env \<Rightarrow> time_value \<Rightarrow> 'a item_scheme \<Rightarrow> log_entry list" where
  "refusalLog E today item =
     (if list_ex (scheduleThrows E) (itemPlan E today item)
      then [ErrorSchedulingItem (name item) RejectedPromise] else [])"

text \<open>The state a call leaves behind, whether it returned or threw.\<close>

definition stateOf :: "notif result \<Rightarrow> notif" where
  "stateOf r = (case r of Inl (e, st) \<Rightarrow> st | Inr st \<Rightarrow> st)"

section \<open>An example environment\<close>

text \<open>
  A device in the UTC zone on which nothing fails and permission is granted on request. Its
  native parser reads the textual and the ISO dates below and rejects everything else, as
  the engines do with the day-first \<^verbatim>\<open>30/11/2025\<close>. The clock reading \<open>dec1\<close> is
  1 December 2025, 10:30.
\<close>

definition nov30 :: int where
  "nov30 = 1764460800000"

definition dec1 :: int where
  "dec1 = 1764585000000"

definition exampleParse :: "string \<Rightarrow> time_value" where
  "exampleParse s =
     map_of [(''Nov 30, 2025'', nov30),
             (''2025-11-30'', nov30),
             (''Dec 1, 2025'', nov30 + msPerDay),
             (''Dec 2, 2025'', nov30 + 2 * msPerDay),
             (''Dec 4, 2025'', nov30 + 4 * msPerDay),
             (''Dec 6, 2025'', nov30 + 6 * msPerDay),
             (''Dec 11, 2025'', nov30 + 11 * msPerDay),
             (''Nov 26, 2025'', nov30 - 4 * msPerDay)] s"

definition exampleEnv :: env where
  "exampleEnv =
     \<lparr>nativeParse = exampleParse, LocalTime = (\<lambda>t. t), UTC = (\<lambda>t. t), os = Ios,
      cancelThrows = False, getPermissionsThrows = False, requestPermissionsThrows = False,
      requestOutcome = Granted, setChannelThrows = False, scheduleThrows = (\<lambda>r. False)\<rparr>"

text \<open>The same device with a subsystem that refuses every request due at 09:00 on 30 November.\<close>

definition refusingEnv :: env where
  "refusingEnv = exampleEnv\<lparr>scheduleThrows := (\<lambda>r. trigger r = At (Some (nov30 + 9 * msPerHour)))\<rparr>"

definition emptyNotif :: notif where
  "emptyNotif =
     \<lparr>permission = Undetermined, scheduled = [], presented = [], channels = [],
      console = [], attempts = []\<rparr>"

definition milk :: item where
  "milk = \<lparr>item_id = ''1'', name = ''Milk'', quantity = ''1 L'',
     expiry_date = Some ''Nov 30, 2025'', emoji = None, status = None\<rparr>"

definition eggs :: item where
  "eggs = \<lparr>item_id = ''2'', name = ''Eggs'', quantity = ''12'',
     expiry_date = Some ''Dec 2, 2025'', emoji = None, status = Some Expiring\<rparr>"

definition rice :: item where
  "rice = \<lparr>item_id = ''3'', name = ''Rice'', quantity = ''1 kg'',
     expiry_date = Some ''Dec 11, 2025'', emoji = None, status = Some Fresh\<rparr>"

definition yoghurt :: item where
  "yoghurt = \<lparr>item_id = ''4'', name = ''Yoghurt'', quantity = ''2'',
     expiry_date = Some ''30/11/2025'', emoji = None, status = None\<rparr>"





definition exampleApp :: "unit app" where
  "exampleApp =
     \<lparr>pantryItems = [eggs, rice], editingItem = Some rice, currentScreen = Edit,
      pantryLoading = True, toasts = [], notifications = emptyNotif\<rparr>"

section \<open>Classification\<close>

lemma ceilDays_ceiling:
  "ceilDays (Some x) (Some y) = Some \<lceil>real_of_int (x - y) / real_of_int msPerDay\<rceil>"
proof -
  have "- (real_of_int (x - y) / real_of_int msPerDay)
        = real_of_int (- (x - y)) / real_of_int msPerDay"
    by (simp only: minus_divide_left of_int_minus)
  then have "\<lceil>real_of_int (x - y) / real_of_int msPerDay\<rceil>
        = - \<lfloor>real_of_int (- (x - y)) / real_of_int msPerDay\<rfloor>"
    by (simp only: ceiling_def)
  also have "\<dots> = - ((- (x - y)) div msPerDay)"
    by (simp only: floor_divide_of_int_eq)
  finally show ?thesis by (simp add: ceilDays_def)
qed

lemma statusOfDays_Some:
  "statusOfDays (Some d) = (if d < 0 then Expired else if d \<le> 3 then Expiring else Fresh)"
  by (simp add: statusOfDays_def numLt_def numLe_def)

lemma setHours_example:
  "setHours exampleEnv h t =
     (if \<bar>(t div 86400000) * 86400000 + h * 3600000\<bar> > 8640000000000000 then None
      else Some ((t div 86400000) * 86400000 + h * 3600000))"
  by (simp add: setHours_def exampleEnv_def Day_def msPerDay_def msPerHour_def TimeClip_def)

text \<open>
  On a string the classifier itself resolves, which is one the native parser reads, the
  number of days is the ceiling of the difference of the two midnights over one day, and
  the status is expired below 0, expiring from 0 to 3 and fresh above 3.
\<close>

lemma native_status_by_days:
  assumes "s \<noteq> []"
    and "statusDate E s = Some (Some t)"
    and "setHours E 0 t = Some e"
    and "setHours E 0 now = Some today"
  shows "daysUntilExpiry E now t = Some \<lceil>real_of_int (e - today) / real_of_int msPerDay\<rceil> \<and>
         calculateExpiryStatus E now (Some s) =
           (if \<lceil>real_of_int (e - today) / real_of_int msPerDay\<rceil> < 0 then Expired
            else if \<lceil>real_of_int (e - today) / real_of_int msPerDay\<rceil> \<le> 3 then Expiring
            else Fresh)"
proof -
  have d: "daysUntilExpiry E now t = Some \<lceil>real_of_int (e - today) / real_of_int msPerDay\<rceil>"
    using assms(3,4) by (simp add: daysUntilExpiry_def ceilDays_ceiling)
  have "calculateExpiryStatus E now (Some s) = statusOfDays (daysUntilExpiry E now t)"
    using assms(1,2) by (simp add: calculateExpiryStatus_def)
  with d show ?thesis by (simp add: statusOfDays_Some)
qed

lemma native_status_by_days_example:
  "daysUntilExpiry exampleEnv dec1 nov30 = Some (- 1) \<and>
   calculateExpiryStatus exampleEnv dec1 (Some ''Nov 30, 2025'') = Expired"
proof -
  have a: "''Nov 30, 2025'' \<noteq> []" by simp
  have b: "statusDate exampleEnv ''Nov 30, 2025'' = Some (Some nov30)"
    by (simp add: statusDate_def newDate_string_def exampleEnv_def exampleParse_def)
  have c: "setHours exampleEnv 0 nov30 = Some nov30"
    by (simp add: setHours_example nov30_def)
  have d: "setHours exampleEnv 0 dec1 = Some (nov30 + msPerDay)"
    by (simp add: setHours_example nov30_def dec1_def msPerDay_def)
  show ?thesis
    using native_status_by_days [OF a b c d] by (simp add: msPerDay_def ceiling_def)
qed

text \<open>
  Claim C2. When the expiry date is absent or empty, or the native parser rejects it, or
  both readings of the scheduling loop fail on it, \<^verbatim>\<open>calculateExpiryStatus\<close> returns fresh:
  a date that cannot be read is never expired or expiring.
\<close>

theorem C2_unresolved_is_fresh:
  assumes "v = None \<or> v = Some [] \<or>
           (\<exists>s. v = Some s \<and> (nativeParse E s = None \<or> scheduleDate E s = Inr None))"
  shows "calculateExpiryStatus E now v = Fresh"
proof -
  have native: "nativeParse E s = None" if "scheduleDate E s = Inr None" for s
    using that by (auto simp: scheduleDate_def newDate_string_def split: option.splits if_splits)
  have "calculateExpiryStatus E now (Some s) = Fresh" if "nativeParse E s = None" for s
    using that by (simp add: calculateExpiryStatus_def statusDate_def newDate_string_def)
  with native assms show ?thesis
    by (auto simp: calculateExpiryStatus_def)
qed

theorem C2_unresolved_is_fresh_witness:
  "calculateExpiryStatus exampleEnv dec1 (Some ''not a date'') = Fresh \<and>
   calculateExpiryStatus exampleEnv dec1 (Some ''   '') = Fresh \<and>
   calculateExpiryStatus exampleEnv dec1 (Some '''') = Fresh \<and>
   calculateExpiryStatus exampleEnv dec1 None = Fresh"
proof -
  have n: "nativeParse exampleEnv ''not a date'' = None" "nativeParse exampleEnv ''   '' = None"
    by (simp_all add: exampleEnv_def exampleParse_def)
  have w: "scheduleDate exampleEnv ''   '' = Inr None"
    by (simp add: scheduleDate_def newDate_string_def dayFirst_def isSep_def
        exampleEnv_def exampleParse_def)
  show ?thesis
    using C2_unresolved_is_fresh [of "Some ''not a date''" exampleEnv dec1]
      C2_unresolved_is_fresh [of "Some ''   ''" exampleEnv dec1]
      C2_unresolved_is_fresh [of "Some ''''" exampleEnv dec1]
      C2_unresolved_is_fresh [of None exampleEnv dec1] n w
    by simp
qed

section \<open>The scheduling loop\<close>

lemma attempts_schedule:
  "attempts (stateOf (scheduleNotificationAsync E r st)) = attempts st @ [r]"
  by (simp add: scheduleNotificationAsync_def stateOf_def Let_def split: trigger.splits)

lemma console_schedule:
  "console (stateOf (scheduleNotificationAsync E r st)) = console st"
  by (simp add: scheduleNotificationAsync_def stateOf_def Let_def split: trigger.splits)

lemma isl_schedule: "isl (scheduleNotificationAsync E r st) = scheduleThrows E r"
  by (simp add: scheduleNotificationAsync_def Let_def)

lemma exn_schedule: "scheduleNotificationAsync E r st = Inl (e, st') \<Longrightarrow> e = RejectedPromise"
  by (simp add: scheduleNotificationAsync_def Let_def split: if_splits)

lemma attempts_attemptAll:
  "attempts (stateOf (attemptAll E rs st)) = attempts st @ uptoRefusal E rs"
proof (induction rs arbitrary: st)
  case Nil
  show ?case by (simp add: stateOf_def)
next
  case (Cons r rs)
  show ?case
  proof (cases "scheduleNotificationAsync E r st")
    case (Inl x)
    then have "scheduleThrows E r" using isl_schedule [of E r st] by simp
    moreover have "attempts (stateOf (Inl x)) = attempts st @ [r]"
      using attempts_schedule [of E r st] Inl by simp
    ultimately show ?thesis using Inl by simp
  next
    case (Inr st')
    then have "\<not> scheduleThrows E r" using isl_schedule [of E r st] by simp
    moreover have "attempts st' = attempts st @ [r]"
      using attempts_schedule [of E r st] Inr by (simp add: stateOf_def)
    ultimately show ?thesis using Inr Cons.IH [of st'] by simp
  qed
qed

lemma console_attemptAll: "console (stateOf (attemptAll E rs st)) = console st"
proof (induction rs arbitrary: st)
  case Nil
  show ?case by (simp add: stateOf_def)
next
  case (Cons r rs)
  show ?case
  proof (cases "scheduleNotificationAsync E r st")
    case (Inl x)
    then show ?thesis using console_schedule [of E r st] by simp
  next
    case (Inr st')
    then have "console st' = console st"
      using console_schedule [of E r st] by (simp add: stateOf_def)
    then show ?thesis using Inr Cons.IH [of st'] by simp
  qed
qed

lemma isl_attemptAll: "isl (attemptAll E rs st) = list_ex (scheduleThrows E) rs"
proof (induction rs arbitrary: st)
  case Nil
  show ?case by simp
next
  case (Cons r rs)
  then show ?case
    using isl_schedule [of E r st] by (cases "scheduleNotificationAsync E r st") auto
qed

lemma exn_attemptAll: "attemptAll E rs st = Inl (e, st') \<Longrightarrow> e = RejectedPromise"
proof (induction rs arbitrary: st)
  case Nil
  then show ?case by simp
next
  case (Cons r rs)
  then show ?case
    by (cases "scheduleNotificationAsync E r st") (auto dest: exn_schedule)
qed

lemma scheduleDate_Inr: "\<exists>d. scheduleDate E s = Inr d"
  by (simp add: scheduleDate_def newDate_string_def)

lemma itemTry_plan:
  "s \<noteq> [] \<Longrightarrow> expiry_date item = Some s \<Longrightarrow>
   itemTry E today item s st = attemptAll E (itemPlan E today item) st"
  using scheduleDate_Inr [of E s]
  by (auto simp: itemTry_def itemPlan_def split: option.splits sum.splits)

lemma attempts_scheduleItem:
  "attempts (scheduleItem E today st item) = attempts st @ uptoRefusal E (itemPlan E today item)"
proof (cases "expiry_date item")
  case None
  then show ?thesis by (simp add: scheduleItem_def itemPlan_def)
next
  case (Some s)
  show ?thesis
  proof (cases "s = []")
    case True
    with Some show ?thesis by (simp add: scheduleItem_def itemPlan_def)
  next
    case False
    have "attempts (scheduleItem E today st item)
          = attempts (stateOf (attemptAll E (itemPlan E today item) st))"
      using Some False itemTry_plan [OF False Some, of E today st]
      by (simp add: scheduleItem_def stateOf_def split: sum.splits prod.splits)
    then show ?thesis by (simp add: attempts_attemptAll)
  qed
qed

lemma console_scheduleItem:
  "console (scheduleItem E today st item) = console st @ refusalLog E today item"
proof (cases "expiry_date item")
  case None
  then show ?thesis by (simp add: scheduleItem_def itemPlan_def refusalLog_def)
next
  case (Some s)
  show ?thesis
  proof (cases "s = []")
    case True
    with Some show ?thesis by (simp add: scheduleItem_def itemPlan_def refusalLog_def)
  next
    case False
    note eq = itemTry_plan [OF False Some, of E today st]
    show ?thesis
    proof (cases "attemptAll E (itemPlan E today item) st")
      case (Inl x)
      obtain e st' where x: "x = (e, st')" by (cases x)
      have e: "e = RejectedPromise" using Inl x exn_attemptAll by blast
      have "list_ex (scheduleThrows E) (itemPlan E today item)"
        using isl_attemptAll [of E "itemPlan E today item" st] Inl by simp
      moreover have "console st' = console st"
        using console_attemptAll [of E "itemPlan E today item" st] Inl x by (simp add: stateOf_def)
      ultimately show ?thesis
        using Some False eq Inl x e by (simp add: scheduleItem_def refusalLog_def)
    next
      case (Inr st')
      have "\<not> list_ex (scheduleThrows E) (itemPlan E today item)"
        using isl_attemptAll [of E "itemPlan E today item" st] Inr by simp
      moreover have "console st' = console st"
        using console_attemptAll [of E "itemPlan E today item" st] Inr by (simp add: stateOf_def)
      ultimately show ?thesis
        using Some False eq Inr by (simp add: scheduleItem_def refusalLog_def)
    qed
  qed
qed

lemma attempts_scheduleLoop:
  "attempts (scheduleLoop E today items st) =
     attempts st @ concat (map (\<lambda>item. uptoRefusal E (itemPlan E today item)) items)"
  unfolding scheduleLoop_def
  by (induction items arbitrary: st) (simp_all add: attempts_scheduleItem)

lemma console_scheduleLoop:
  "console (scheduleLoop E today items st) =
     console st @ concat (map (refusalLog E today) items)"
  unfolding scheduleLoop_def
  by (induction items arbitrary: st) (simp_all add: console_scheduleItem)

lemma uptoRefusal_none: "\<not> list_ex (scheduleThrows E) rs \<Longrightarrow> uptoRefusal E rs = rs"
  by (induction rs) auto


lemma itemPlan_days:
  assumes "expiry_date item = Some s" and "s \<noteq> []"
    and "scheduleDate E s = Inr (Some t)"
    and "setHours E 0 t = Some e"
    and "ceilDays (Some e) today = Some d"
  shows "itemPlan E today item =
     (if d \<ge> 3 then
        [expiresToday item (setHours E 9 e),
         expiresTomorrow item (Option.bind (setDateBack E 1 e) (setHours E 9)),
         expiringSoon item (Option.bind (setDateBack E 3 e) (setHours E 9))]
      else if d \<ge> 1 then
        [expiresToday item (setHours E 9 e),
         expiresTomorrow item (Option.bind (setDateBack E 1 e) (setHours E 9))]
      else if d \<ge> 0 then [expiresToday item (setHours E 9 e)]
      else if d \<ge> - 1 then [hasExpired item]
      else [])"
  using assms
  by (simp add: itemPlan_def itemRequests_def numGe_def numLt_def)


lemma milk_date: "scheduleDate exampleEnv ''Nov 30, 2025'' = Inr (Some nov30)"
  by (simp add: scheduleDate_def newDate_string_def exampleEnv_def exampleParse_def)

lemma milk_midnight: "setHours exampleEnv 0 nov30 = Some nov30"
  by (simp add: setHours_example nov30_def)

lemma milk_days: "ceilDays (Some nov30) (Some (nov30 - k * msPerDay)) = Some k"
  by (simp add: ceilDays_def msPerDay_def)


lemma setDateBack_example:
  "setDateBack exampleEnv k t =
     (if \<bar>(t div 86400000 - k) * 86400000 + t mod 86400000\<bar> > 8640000000000000 then None
      else Some ((t div 86400000 - k) * 86400000 + t mod 86400000))"
  by (simp add: setDateBack_def exampleEnv_def Day_def TimeWithinDay_def msPerDay_def
      TimeClip_def Let_def)



text \<open>
  Claim C7, as amended. The \<^verbatim>\<open>try\<close> of the loop encloses all the calls of one item. A
  refused request ends the calls of its own item and of no other: the loop attempts, item by
  item, the requests of the item up to and including the first refused; it logs one error
  for each item with a refused request; and every item none of whose requests is refused
  has all of them attempted, whatever happened to the items before it.
\<close>

theorem C7_failure_ends_the_item_only:
  "attempts (scheduleLoop E today items st) =
     attempts st @ concat (map (\<lambda>item. uptoRefusal E (itemPlan E today item)) items) \<and>
   console (scheduleLoop E today items st) =
     console st @ concat (map (refusalLog E today) items) \<and>
   (\<forall>item \<in> set items.
      \<not> list_ex (scheduleThrows E) (itemPlan E today item) \<longrightarrow>
      set (itemPlan E today item) \<subseteq> set (attempts (scheduleLoop E today items st)))"
proof -
  have a: "attempts (scheduleLoop E today items st) =
     attempts st @ concat (map (\<lambda>item. uptoRefusal E (itemPlan E today item)) items)"
    by (rule attempts_scheduleLoop)
  have "set (itemPlan E today item) \<subseteq> set (attempts (scheduleLoop E today items st))"
    if "item \<in> set items" and "\<not> list_ex (scheduleThrows E) (itemPlan E today item)" for item
  proof -
    have "uptoRefusal E (itemPlan E today item) = itemPlan E today item"
      using that(2) by (rule uptoRefusal_none)
    then show ?thesis using that(1) a by force
  qed
  with a console_scheduleLoop [of E today items st] show ?thesis by blast
qed

lemma refusing_setHours: "setHours refusingEnv = setHours exampleEnv"
  by (intro ext) (simp add: setHours_def refusingEnv_def)

lemma refusing_setDateBack: "setDateBack refusingEnv = setDateBack exampleEnv"
  by (intro ext) (simp add: setDateBack_def refusingEnv_def)

lemma refusing_UTC: "UTC refusingEnv = UTC exampleEnv"
  by (simp add: refusingEnv_def)

lemma refusing_newDate_ymd: "newDate_ymd refusingEnv = newDate_ymd exampleEnv"
  unfolding newDate_ymd_def refusing_UTC ..

lemma refusing_newDate_string: "newDate_string refusingEnv = newDate_string exampleEnv"
  by (intro ext) (simp add: newDate_string_def refusingEnv_def)

lemma refusing_dayFirst: "dayFirst refusingEnv = dayFirst exampleEnv"
  unfolding dayFirst_def refusing_newDate_ymd ..

lemma refusing_scheduleDate: "scheduleDate refusingEnv = scheduleDate exampleEnv"
  unfolding scheduleDate_def refusing_newDate_string refusing_dayFirst ..

lemma refusing_itemRequests: "itemRequests refusingEnv = itemRequests exampleEnv"
  unfolding itemRequests_def refusing_setHours refusing_setDateBack ..

lemma refusing_itemPlan: "itemPlan refusingEnv today item = itemPlan exampleEnv today item"
  unfolding itemPlan_def refusing_scheduleDate refusing_itemRequests ..

lemma milk_plan:
  "itemPlan exampleEnv (Some (nov30 - 5 * msPerDay)) milk =
     [expiresToday milk (Some (nov30 + 9 * msPerHour)),
      expiresTomorrow milk (Some (nov30 - msPerDay + 9 * msPerHour)),
      expiringSoon milk (Some (nov30 - 3 * msPerDay + 9 * msPerHour))]"
proof -
  have a: "expiry_date milk = Some ''Nov 30, 2025''" by (simp add: milk_def)
  have b: "''Nov 30, 2025'' \<noteq> []" by simp
  show ?thesis
    by (simp only: itemPlan_days [OF a b milk_date milk_midnight milk_days])
       (simp add: setHours_example setDateBack_example nov30_def msPerHour_def msPerDay_def)
qed

lemma eggs_plan:
  "itemPlan exampleEnv (Some (nov30 - 5 * msPerDay)) eggs =
     [expiresToday eggs (Some (nov30 + 2 * msPerDay + 9 * msPerHour)),
      expiresTomorrow eggs (Some (nov30 + msPerDay + 9 * msPerHour)),
      expiringSoon eggs (Some (nov30 - msPerDay + 9 * msPerHour))]"
proof -
  have a: "expiry_date eggs = Some ''Dec 2, 2025''" by (simp add: eggs_def)
  have b: "''Dec 2, 2025'' \<noteq> []" by simp
  have c: "scheduleDate exampleEnv ''Dec 2, 2025'' = Inr (Some (nov30 + 2 * msPerDay))"
    by (simp add: scheduleDate_def newDate_string_def exampleEnv_def exampleParse_def)
  have d: "setHours exampleEnv 0 (nov30 + 2 * msPerDay) = Some (nov30 + 2 * msPerDay)"
    by (simp add: setHours_example nov30_def msPerDay_def)
  have e: "ceilDays (Some (nov30 + 2 * msPerDay)) (Some (nov30 - 5 * msPerDay)) = Some 7"
    by (simp add: ceilDays_def msPerDay_def)
  show ?thesis
    by (simp only: itemPlan_days [OF a b c d e])
       (simp add: setHours_example setDateBack_example nov30_def msPerHour_def msPerDay_def)
qed

lemma refusing_throws:
  "scheduleThrows refusingEnv r = (trigger r = At (Some (nov30 + 9 * msPerHour)))"
  by (simp add: refusingEnv_def)

lemma run_refusing:
  "scheduleExpiryNotifications refusingEnv now items emptyNotif =
     scheduleLoop refusingEnv (setHours refusingEnv 0 now) items
       (emptyNotif\<lparr>permission := Granted\<rparr>)"
  by (simp add: scheduleExpiryNotifications_def cancelAllScheduledNotificationsAsync_def
      requestNotificationPermissions_def refusingEnv_def exampleEnv_def emptyNotif_def)

lemma granted_attempts: "attempts (emptyNotif\<lparr>permission := Granted\<rparr>) = []"
  by (simp add: emptyNotif_def)

lemma nov25_midnight:
  "setHours refusingEnv 0 (nov30 - 5 * msPerDay + 37800000) = Some (nov30 - 5 * msPerDay)"
  by (simp add: refusing_setHours setHours_example nov30_def msPerDay_def)

text \<open>
  Claim C7 as stated fails. Milk expires in five days, so three requests are planned. The
  subsystem refuses the first; the other two, which it would accept, are never attempted.
\<close>

theorem C7_counterexample:
  "itemPlan refusingEnv (Some (nov30 - 5 * msPerDay)) milk =
     [expiresToday milk (Some (nov30 + 9 * msPerHour)),
      expiresTomorrow milk (Some (nov30 - msPerDay + 9 * msPerHour)),
      expiringSoon milk (Some (nov30 - 3 * msPerDay + 9 * msPerHour))] \<and>
   \<not> scheduleThrows refusingEnv (expiresTomorrow milk (Some (nov30 - msPerDay + 9 * msPerHour))) \<and>
   \<not> scheduleThrows refusingEnv (expiringSoon milk (Some (nov30 - 3 * msPerDay + 9 * msPerHour))) \<and>
   attempts (scheduleExpiryNotifications refusingEnv (nov30 - 5 * msPerDay + 37800000) [milk]
       emptyNotif) =
     [expiresToday milk (Some (nov30 + 9 * msPerHour))]"
proof -
  have p: "itemPlan refusingEnv (Some (nov30 - 5 * msPerDay)) milk =
     [expiresToday milk (Some (nov30 + 9 * msPerHour)),
      expiresTomorrow milk (Some (nov30 - msPerDay + 9 * msPerHour)),
      expiringSoon milk (Some (nov30 - 3 * msPerDay + 9 * msPerHour))]"
    by (simp only: refusing_itemPlan milk_plan)
  have t: "scheduleThrows refusingEnv (expiresToday milk (Some (nov30 + 9 * msPerHour)))"
    by (simp add: refusing_throws expiresToday_def)
  have n1: "\<not> scheduleThrows refusingEnv
      (expiresTomorrow milk (Some (nov30 - msPerDay + 9 * msPerHour)))"
    by (simp add: refusing_throws expiresTomorrow_def msPerDay_def)
  have n3: "\<not> scheduleThrows refusingEnv
      (expiringSoon milk (Some (nov30 - 3 * msPerDay + 9 * msPerHour)))"
    by (simp add: refusing_throws expiringSoon_def msPerDay_def)
  have "attempts (scheduleExpiryNotifications refusingEnv (nov30 - 5 * msPerDay + 37800000)
       [milk] emptyNotif) =
     uptoRefusal refusingEnv (itemPlan refusingEnv (Some (nov30 - 5 * msPerDay)) milk)"
    by (simp add: run_refusing nov25_midnight attempts_scheduleLoop granted_attempts)
  also have "\<dots> = [expiresToday milk (Some (nov30 + 9 * msPerHour))]"
    by (simp only: p uptoRefusal.simps t if_True)
  finally show ?thesis using p n1 n3 by blast
qed

theorem C7_failure_ends_the_item_only_witness:
  "attempts (scheduleLoop refusingEnv (Some (nov30 - 5 * msPerDay)) [milk, eggs] emptyNotif) =
     [expiresToday milk (Some (nov30 + 9 * msPerHour)),
      expiresToday eggs (Some (nov30 + 2 * msPerDay + 9 * msPerHour)),
      expiresTomorrow eggs (Some (nov30 + msPerDay + 9 * msPerHour)),
      expiringSoon eggs (Some (nov30 - msPerDay + 9 * msPerHour))] \<and>
   console (scheduleLoop refusingEnv (Some (nov30 - 5 * msPerDay)) [milk, eggs] emptyNotif) =
     [ErrorSchedulingItem ''Milk'' RejectedPromise] \<and>
   set (itemPlan refusingEnv (Some (nov30 - 5 * msPerDay)) eggs) \<subseteq>
     set (attempts (scheduleLoop refusingEnv (Some (nov30 - 5 * msPerDay)) [milk, eggs] emptyNotif))"
proof -
  note th = C7_failure_ends_the_item_only
    [of refusingEnv "Some (nov30 - 5 * msPerDay)" "[milk, eggs]" emptyNotif]
  have pm: "itemPlan refusingEnv (Some (nov30 - 5 * msPerDay)) milk =
     [expiresToday milk (Some (nov30 + 9 * msPerHour)),
      expiresTomorrow milk (Some (nov30 - msPerDay + 9 * msPerHour)),
      expiringSoon milk (Some (nov30 - 3 * msPerDay + 9 * msPerHour))]"
    by (simp only: refusing_itemPlan milk_plan)
  have pe: "itemPlan refusingEnv (Some (nov30 - 5 * msPerDay)) eggs =
     [expiresToday eggs (Some (nov30 + 2 * msPerDay + 9 * msPerHour)),
      expiresTomorrow eggs (Some (nov30 + msPerDay + 9 * msPerHour)),
      expiringSoon eggs (Some (nov30 - msPerDay + 9 * msPerHour))]"
    by (simp only: refusing_itemPlan eggs_plan)
  have um: "uptoRefusal refusingEnv (itemPlan refusingEnv (Some (nov30 - 5 * msPerDay)) milk)
      = [expiresToday milk (Some (nov30 + 9 * msPerHour))]"
    by (simp add: pm refusing_throws expiresToday_def)
  have ne: "\<not> list_ex (scheduleThrows refusingEnv)
      (itemPlan refusingEnv (Some (nov30 - 5 * msPerDay)) eggs)"
    unfolding pe
    by (simp add: refusing_throws expiresToday_def expiresTomorrow_def expiringSoon_def
        msPerDay_def)
  have ue: "uptoRefusal refusingEnv (itemPlan refusingEnv (Some (nov30 - 5 * msPerDay)) eggs)
      = itemPlan refusingEnv (Some (nov30 - 5 * msPerDay)) eggs"
    using ne by (rule uptoRefusal_none)
  have lm: "refusalLog refusingEnv (Some (nov30 - 5 * msPerDay)) milk
      = [ErrorSchedulingItem ''Milk'' RejectedPromise]"
    unfolding refusalLog_def pm
    by (simp add: refusing_throws expiresToday_def milk_def)
  have le: "refusalLog refusingEnv (Some (nov30 - 5 * msPerDay)) eggs = []"
    using ne by (simp add: refusalLog_def)
  have e: "attempts emptyNotif = []" "console emptyNotif = []" by (simp_all add: emptyNotif_def)
  show ?thesis
    using th ne by (simp add: um ue lm le e pe)
qed

section \<open>Reconciliation\<close>

lemma scheduled_schedule:
  "scheduled (stateOf (scheduleNotificationAsync E r st)) =
     scheduled st @ (if \<not> scheduleThrows E r \<and> trigger r \<noteq> Immediate then [r] else [])"
  by (simp add: scheduleNotificationAsync_def stateOf_def Let_def split: trigger.splits)

lemma permission_schedule:
  "permission (stateOf (scheduleNotificationAsync E r st)) = permission st"
  by (simp add: scheduleNotificationAsync_def stateOf_def Let_def split: trigger.splits)

lemma scheduled_attemptAll:
  "scheduled (stateOf (attemptAll E rs st)) =
     scheduled st @ filter (\<lambda>r. trigger r \<noteq> Immediate) (takeWhile (\<lambda>r. \<not> scheduleThrows E r) rs)"
proof (induction rs arbitrary: st)
  case Nil
  show ?case by (simp add: stateOf_def)
next
  case (Cons r rs)
  show ?case
  proof (cases "scheduleNotificationAsync E r st")
    case (Inl x)
    then have "scheduleThrows E r" using isl_schedule [of E r st] by simp
    then show ?thesis using Inl scheduled_schedule [of E r st] by simp
  next
    case (Inr st')
    then have "\<not> scheduleThrows E r" using isl_schedule [of E r st] by simp
    moreover have "scheduled st' =
        scheduled st @ (if \<not> scheduleThrows E r \<and> trigger r \<noteq> Immediate then [r] else [])"
      using scheduled_schedule [of E r st] Inr by (simp add: stateOf_def)
    ultimately show ?thesis using Inr Cons.IH [of st'] by simp
  qed
qed

lemma permission_attemptAll: "permission (stateOf (attemptAll E rs st)) = permission st"
proof (induction rs arbitrary: st)
  case Nil
  show ?case by (simp add: stateOf_def)
next
  case (Cons r rs)
  show ?case
  proof (cases "scheduleNotificationAsync E r st")
    case (Inl x)
    then show ?thesis using permission_schedule [of E r st] by simp
  next
    case (Inr st')
    then have "permission st' = permission st"
      using permission_schedule [of E r st] by (simp add: stateOf_def)
    then show ?thesis using Inr Cons.IH [of st'] by simp
  qed
qed

lemma scheduleItem_stateOf:
  "scheduleItem E today st item =
     (let r = attemptAll E (itemPlan E today item) st
      in if isl r then (stateOf r)\<lparr>console := console (stateOf r) @
                [ErrorSchedulingItem (name item) (fst (projl r))]\<rparr>
         else stateOf r)"
proof (cases "expiry_date item")
  case None
  then show ?thesis by (simp add: scheduleItem_def itemPlan_def stateOf_def)
next
  case (Some s)
  show ?thesis
  proof (cases "s = []")
    case True
    with Some show ?thesis by (simp add: scheduleItem_def itemPlan_def stateOf_def)
  next
    case False
    show ?thesis
      using Some False itemTry_plan [OF False Some, of E today st]
      by (simp add: scheduleItem_def stateOf_def Let_def split: sum.splits prod.splits)
  qed
qed

lemma scheduled_scheduleItem:
  "scheduled (scheduleItem E today st item) =
     scheduled st @ filter (\<lambda>r. trigger r \<noteq> Immediate)
        (takeWhile (\<lambda>r. \<not> scheduleThrows E r) (itemPlan E today item))"
  by (simp add: scheduleItem_stateOf Let_def scheduled_attemptAll)

lemma permission_scheduleItem: "permission (scheduleItem E today st item) = permission st"
  by (simp add: scheduleItem_stateOf Let_def permission_attemptAll)

lemma scheduled_scheduleLoop:
  "scheduled (scheduleLoop E today items st) =
     scheduled st @ concat (map (\<lambda>item. filter (\<lambda>r. trigger r \<noteq> Immediate)
        (takeWhile (\<lambda>r. \<not> scheduleThrows E r) (itemPlan E today item))) items)"
  unfolding scheduleLoop_def
  by (induction items arbitrary: st) (simp_all add: scheduled_scheduleItem)

lemma permission_scheduleLoop: "permission (scheduleLoop E today items st) = permission st"
  unfolding scheduleLoop_def
  by (induction items arbitrary: st) (simp_all add: permission_scheduleItem)

lemma scheduled_permissions:
  "scheduled (snd (requestNotificationPermissions E st)) = scheduled st"
  by (simp add: requestNotificationPermissions_def Let_def)

text \<open>The flag depends on the permission alone, and asking again gives the same flag.\<close>

lemma granted_again:
  "permission st' = permission (snd (requestNotificationPermissions E st)) \<Longrightarrow>
   fst (requestNotificationPermissions E st') = fst (requestNotificationPermissions E st)"
  by (auto simp: requestNotificationPermissions_def Let_def split: if_splits)

lemma run_cases:
  "scheduleExpiryNotifications E now items st =
     (if os E = Web then st
      else if cancelThrows E then st\<lparr>console := console st @ [ErrorSchedulingExpiry RejectedPromise]\<rparr>
      else if fst (requestNotificationPermissions E (st\<lparr>scheduled := []\<rparr>))
        then scheduleLoop E (setHours E 0 now) items
               (snd (requestNotificationPermissions E (st\<lparr>scheduled := []\<rparr>)))
      else snd (requestNotificationPermissions E (st\<lparr>scheduled := []\<rparr>)))"
  by (simp add: scheduleExpiryNotifications_def cancelAllScheduledNotificationsAsync_def
      split: prod.splits)

lemma scheduled_run:
  "scheduled (scheduleExpiryNotifications E now items st) =
     (if os E = Web \<or> cancelThrows E then scheduled st
      else if fst (requestNotificationPermissions E (st\<lparr>scheduled := []\<rparr>))
        then concat (map (\<lambda>item. filter (\<lambda>r. trigger r \<noteq> Immediate)
               (takeWhile (\<lambda>r. \<not> scheduleThrows E r) (itemPlan E (setHours E 0 now) item))) items)
      else [])"
  by (simp add: run_cases scheduled_scheduleLoop scheduled_permissions)

lemma permission_run:
  "permission (scheduleExpiryNotifications E now items st) =
     (if os E = Web \<or> cancelThrows E then permission st
      else permission (snd (requestNotificationPermissions E (st\<lparr>scheduled := []\<rparr>))))"
  by (simp add: run_cases permission_scheduleLoop)

text \<open>
  Claim C5. Running \<^verbatim>\<open>scheduleExpiryNotifications\<close> twice in succession on the same items,
  at the same clock reading and against the same subsystem, leaves the same scheduled
  requests as running it once. Where notifications exist and the cancellation succeeds,
  what was scheduled before the run has no part in what is scheduled after it.
\<close>

theorem C5_reconcile_idempotent:
  "scheduled (scheduleExpiryNotifications E now items
      (scheduleExpiryNotifications E now items st)) =
   scheduled (scheduleExpiryNotifications E now items st) \<and>
   (os E \<noteq> Web \<and> \<not> cancelThrows E \<longrightarrow>
      scheduled (scheduleExpiryNotifications E now items st) =
      scheduled (scheduleExpiryNotifications E now items (st\<lparr>scheduled := []\<rparr>)))"
proof -
  let ?R = "scheduleExpiryNotifications E now items"
  have idem: "scheduled (?R (?R st)) = scheduled (?R st)"
  proof (cases "os E = Web \<or> cancelThrows E")
    case True
    then show ?thesis by (simp add: scheduled_run)
  next
    case False
    have "permission ((?R st)\<lparr>scheduled := []\<rparr>) =
          permission (snd (requestNotificationPermissions E (st\<lparr>scheduled := []\<rparr>)))"
      using False by (simp add: permission_run)
    then have "fst (requestNotificationPermissions E ((?R st)\<lparr>scheduled := []\<rparr>)) =
          fst (requestNotificationPermissions E (st\<lparr>scheduled := []\<rparr>))"
      by (rule granted_again)
    then show ?thesis using False by (simp add: scheduled_run)
  qed
  have "scheduled (?R st) = scheduled (?R (st\<lparr>scheduled := []\<rparr>))"
    if "os E \<noteq> Web" "\<not> cancelThrows E"
    using that by (simp add: scheduled_run)
  with idem show ?thesis by blast
qed

lemma eggs_plan_dec1:
  "itemPlan exampleEnv (Some (nov30 + msPerDay)) eggs =
     [expiresToday eggs (Some (nov30 + 2 * msPerDay + 9 * msPerHour)),
      expiresTomorrow eggs (Some (nov30 + msPerDay + 9 * msPerHour))]"
proof -
  have a: "expiry_date eggs = Some ''Dec 2, 2025''" by (simp add: eggs_def)
  have b: "''Dec 2, 2025'' \<noteq> []" by simp
  have c: "scheduleDate exampleEnv ''Dec 2, 2025'' = Inr (Some (nov30 + 2 * msPerDay))"
    by (simp add: scheduleDate_def newDate_string_def exampleEnv_def exampleParse_def)
  have d: "setHours exampleEnv 0 (nov30 + 2 * msPerDay) = Some (nov30 + 2 * msPerDay)"
    by (simp add: setHours_example nov30_def msPerDay_def)
  have e: "ceilDays (Some (nov30 + 2 * msPerDay)) (Some (nov30 + msPerDay)) = Some 1"
    by (simp add: ceilDays_def msPerDay_def)
  show ?thesis
    by (simp only: itemPlan_days [OF a b c d e])
       (simp add: setHours_example setDateBack_example nov30_def msPerHour_def msPerDay_def)
qed

lemma dec1_midnight: "setHours exampleEnv 0 dec1 = Some (nov30 + msPerDay)"
  by (simp add: setHours_example nov30_def dec1_def msPerDay_def)

lemma example_granted:
  "fst (requestNotificationPermissions exampleEnv st) \<and> os exampleEnv \<noteq> Web \<and>
   \<not> cancelThrows exampleEnv"
  by (simp add: requestNotificationPermissions_def exampleEnv_def)

theorem C5_reconcile_idempotent_witness:
  "scheduled (scheduleExpiryNotifications exampleEnv dec1 [eggs]
      (emptyNotif\<lparr>scheduled := [expiresToday milk (Some nov30)]\<rparr>)) =
     [expiresToday eggs (Some (nov30 + 2 * msPerDay + 9 * msPerHour)),
      expiresTomorrow eggs (Some (nov30 + msPerDay + 9 * msPerHour))] \<and>
   scheduled (scheduleExpiryNotifications exampleEnv dec1 [eggs]
      (scheduleExpiryNotifications exampleEnv dec1 [eggs]
         (emptyNotif\<lparr>scheduled := [expiresToday milk (Some nov30)]\<rparr>))) =
     [expiresToday eggs (Some (nov30 + 2 * msPerDay + 9 * msPerHour)),
      expiresTomorrow eggs (Some (nov30 + msPerDay + 9 * msPerHour))]"
proof -
  have tw: "takeWhile (\<lambda>r. \<not> scheduleThrows exampleEnv r) rs = rs" for rs
    by (simp add: exampleEnv_def)
  have dated: "trigger (expiresToday i t) \<noteq> Immediate" "trigger (expiresTomorrow i t) \<noteq> Immediate"
    for i :: item and t
    by (simp_all add: expiresToday_def expiresTomorrow_def)
  have once: "scheduled (scheduleExpiryNotifications exampleEnv dec1 [eggs]
      (emptyNotif\<lparr>scheduled := [expiresToday milk (Some nov30)]\<rparr>)) =
     [expiresToday eggs (Some (nov30 + 2 * msPerDay + 9 * msPerHour)),
      expiresTomorrow eggs (Some (nov30 + msPerDay + 9 * msPerHour))]"
    using example_granted
    by (simp add: scheduled_run dec1_midnight eggs_plan_dec1 tw dated)
  show ?thesis
    using C5_reconcile_idempotent [of exampleEnv dec1 "[eggs]"
        "emptyNotif\<lparr>scheduled := [expiresToday milk (Some nov30)]\<rparr>"] once
    by simp
qed

section \<open>Deleting an item\<close>

lemma find_by_id:
  "d \<in> item_id ` set items \<Longrightarrow> \<exists>it. find (\<lambda>i. item_id i = d) items = Some it \<and> item_id it = d"
  by (induction items) auto

text \<open>
  Claim C6. When an item with the given id is in the collection, the optimistic update
  removes it before the remote call; when the remote call then fails, the item found at the
  start is appended again, the ids in the collection are those it held before, and an error
  toast is shown.
\<close>

theorem C6_delete_rollback:
  assumes "d \<in> item_id ` set (pantryItems A)"
  shows "d \<notin> item_id ` set (pantryItems (removeLocally d A)) \<and>
         pantryItems (handleDeleteItem (Resolved ()) d A) = pantryItems (removeLocally d A) \<and>
         (\<exists>it. find (\<lambda>i. item_id i = d) (pantryItems A) = Some it \<and>
            pantryItems (handleDeleteItem (Rejected m) d A) =
              pantryItems (removeLocally d A) @ [it]) \<and>
         item_id ` set (pantryItems (handleDeleteItem (Rejected m) d A)) =
           item_id ` set (pantryItems A) \<and>
         toasts (handleDeleteItem (Rejected m) d A) =
           toasts A @ [\<lparr>toastType = ''error'', text1 = ''Delete Failed'',
                        text2 = messageOr m ''Unable to delete this item.''\<rparr>]"
proof -
  obtain it where it: "find (\<lambda>i. item_id i = d) (pantryItems A) = Some it" "item_id it = d"
    using find_by_id [OF assms] by blast
  have gone: "d \<notin> item_id ` set (pantryItems (removeLocally d A))"
    by (auto simp: removeLocally_def)
  have ok: "pantryItems (handleDeleteItem (Resolved ()) d A) = pantryItems (removeLocally d A)"
    by (simp add: handleDeleteItem_def Let_def)
  have again: "pantryItems (handleDeleteItem (Rejected m) d A) =
      pantryItems (removeLocally d A) @ [it]"
    using it(1) by (simp add: handleDeleteItem_def Let_def)
  have "item_id ` set (pantryItems (removeLocally d A) @ [it]) = item_id ` set (pantryItems A)"
    using it(2) assms by (auto simp: removeLocally_def)
  then have ids: "item_id ` set (pantryItems (handleDeleteItem (Rejected m) d A)) =
      item_id ` set (pantryItems A)"
    by (simp only: again)
  have toast: "toasts (handleDeleteItem (Rejected m) d A) =
      toasts A @ [\<lparr>toastType = ''error'', text1 = ''Delete Failed'',
                   text2 = messageOr m ''Unable to delete this item.''\<rparr>]"
    by (simp add: handleDeleteItem_def removeLocally_def Let_def)
  from gone ok it(1) again ids toast show ?thesis by blast
qed

theorem C6_delete_rollback_witness:
  "pantryItems (removeLocally ''2'' exampleApp) = [rice] \<and>
   pantryItems (handleDeleteItem (Rejected None) ''2'' exampleApp) = [rice, eggs] \<and>
   item_id ` set (pantryItems (handleDeleteItem (Rejected None) ''2'' exampleApp)) =
     {''2'', ''3''} \<and>
   toasts (handleDeleteItem (Rejected None) ''2'' exampleApp) =
     [\<lparr>toastType = ''error'', text1 = ''Delete Failed'',
       text2 = ''Unable to delete this item.''\<rparr>]"
proof -
  have p: "''2'' \<in> item_id ` set (pantryItems exampleApp)"
    by (simp add: exampleApp_def eggs_def)
  have r: "pantryItems (removeLocally ''2'' exampleApp) = [rice]"
    by (simp add: removeLocally_def exampleApp_def eggs_def rice_def)
  have f: "find (\<lambda>i. item_id i = ''2'') (pantryItems exampleApp) = Some eggs"
    by (simp add: exampleApp_def eggs_def)
  have t: "toasts exampleApp = []" by (simp add: exampleApp_def)
  have i: "item_id ` set (pantryItems exampleApp) = {''2'', ''3''}"
    by (simp add: exampleApp_def eggs_def rice_def)
  show ?thesis
    using C6_delete_rollback [OF p, of None]
    by (auto simp add: r f t i messageOr_def eggs_def rice_def)
qed

section \<open>Classifying a collection\<close>


lemma store_run:
  "\<forall>a \<in> set refs. a < length h \<Longrightarrow>
   checkAndUpdateExpiryStatus_store E now refs h =
     Some ([length h ..< length h + length refs], h @ map (\<lambda>a. restamp E now (h ! a)) refs)"
proof (induction refs arbitrary: h)
  case Nil
  show ?case by simp
next
  case (Cons a as)
  let ?h1 = "h @ [restamp E now (h ! a)]"
  have a: "a < length h" using Cons.prems by simp
  have valid: "\<forall>b \<in> set as. b < length ?h1" using Cons.prems by auto
  have same: "map (\<lambda>b. restamp E now (?h1 ! b)) as = map (\<lambda>b. restamp E now (h ! b)) as"
    using Cons.prems by (auto simp: nth_append)
  have idx: "length h # [Suc (length h) ..< Suc (length h + length as)]
             = [length h ..< Suc (length h + length as)]"
    by (simp add: upt_conv_Cons del: upt_Suc)
  show ?case
    using a Cons.IH [OF valid] by (simp add: same idx del: upt_Suc)
qed

text \<open>
  Claim C9. \<^verbatim>\<open>checkAndUpdateExpiryStatus\<close> returns a collection of the same length whose
  item at each position is the input item at that position with only \<open>status\<close> replaced,
  by the status computed from that item's own date. On a store of objects it writes to no
  object that existed before the call: the store it leaves extends the old one, and the
  array it returns holds new addresses only, whose objects are the items of the result.
\<close>

theorem C9_batch_classification:
  assumes "\<forall>a \<in> set refs. a < length h"
  shows "length (checkAndUpdateExpiryStatus E now items) = length items \<and>
         (\<forall>i < length items.
            checkAndUpdateExpiryStatus E now items ! i =
              (items ! i)\<lparr>status := Some (calculateExpiryStatus E now (expiry_date (items ! i)))\<rparr> \<and>
            (checkAndUpdateExpiryStatus E now items ! i)\<lparr>status := status (items ! i)\<rparr> =
              items ! i) \<and>
         (\<exists>out h'. checkAndUpdateExpiryStatus_store E now refs h = Some (out, h') \<and>
            take (length h) h' = h \<and>
            (\<forall>r \<in> set out. length h \<le> r \<and> r < length h') \<and>
            map ((!) h') out = checkAndUpdateExpiryStatus E now (map ((!) h) refs))"
proof -
  have pure: "\<forall>i < length items.
      checkAndUpdateExpiryStatus E now items ! i =
        (items ! i)\<lparr>status := Some (calculateExpiryStatus E now (expiry_date (items ! i)))\<rparr> \<and>
      (checkAndUpdateExpiryStatus E now items ! i)\<lparr>status := status (items ! i)\<rparr> = items ! i"
    by (simp add: checkAndUpdateExpiryStatus_def restamp_def)
  let ?out = "[length h ..< length h + length refs]"
  let ?h' = "h @ map (\<lambda>a. restamp E now (h ! a)) refs"
  have run: "checkAndUpdateExpiryStatus_store E now refs h = Some (?out, ?h')"
    using assms by (rule store_run)
  have fresh: "\<forall>r \<in> set ?out. length h \<le> r \<and> r < length ?h'" by simp
  have "map ((!) ?h') ?out = map (\<lambda>a. restamp E now (h ! a)) refs"
    by (rule nth_equalityI) (simp_all add: nth_append)
  then have objs: "map ((!) ?h') ?out = checkAndUpdateExpiryStatus E now (map ((!) h) refs)"
    by (simp add: checkAndUpdateExpiryStatus_def comp_def)
  have "take (length h) ?h' = h" by simp
  with run fresh objs have
    "\<exists>out h'. checkAndUpdateExpiryStatus_store E now refs h = Some (out, h') \<and>
       take (length h) h' = h \<and>
       (\<forall>r \<in> set out. length h \<le> r \<and> r < length h') \<and>
       map ((!) h') out = checkAndUpdateExpiryStatus E now (map ((!) h) refs)"
    by blast
  with pure show ?thesis by (simp add: checkAndUpdateExpiryStatus_def)
qed

lemma status_milk: "calculateExpiryStatus exampleEnv dec1 (Some ''Nov 30, 2025'') = Expired"
  by (simp add: calculateExpiryStatus_def statusDate_def newDate_string_def exampleEnv_def
      exampleParse_def daysUntilExpiry_def setHours_def Day_def TimeClip_def ceilDays_def
      statusOfDays_def numLt_def numLe_def msPerDay_def msPerHour_def nov30_def dec1_def)

lemma status_yoghurt: "calculateExpiryStatus exampleEnv dec1 (Some ''30/11/2025'') = Fresh"
  by (simp add: calculateExpiryStatus_def statusDate_def newDate_string_def exampleEnv_def
      exampleParse_def)

theorem C9_batch_classification_witness:
  "checkAndUpdateExpiryStatus exampleEnv dec1 [yoghurt, milk] =
     [yoghurt\<lparr>status := Some Fresh\<rparr>, milk\<lparr>status := Some Expired\<rparr>] \<and>
   checkAndUpdateExpiryStatus_store exampleEnv dec1 [1, 0] [yoghurt, milk] =
     Some ([2, 3], [yoghurt, milk, milk\<lparr>status := Some Expired\<rparr>,
                    yoghurt\<lparr>status := Some Fresh\<rparr>])"
proof -
  have v: "\<forall>a \<in> set [1, 0 :: nat]. a < length [yoghurt, milk]" by simp
  have st: "checkAndUpdateExpiryStatus_store exampleEnv dec1 [1, 0] [yoghurt, milk] =
     Some ([2, 3], [yoghurt, milk, milk\<lparr>status := Some Expired\<rparr>,
                    yoghurt\<lparr>status := Some Fresh\<rparr>])"
    by (simp add: restamp_def status_milk status_yoghurt milk_def yoghurt_def)
  have "length [yoghurt, milk] = 2" by simp
  then show ?thesis
    using C9_batch_classification [OF v, of exampleEnv dec1 "[yoghurt, milk]"] st
    by (simp add: checkAndUpdateExpiryStatus_def restamp_def status_milk status_yoghurt
        milk_def yoghurt_def)
qed

section \<open>Updating an item\<close>















section \<open>The two date resolutions\<close>

lemma dayFirst_30_11_2025: "dayFirst E ''30/11/2025'' = Some (newDate_ymd E 2025 10 30)"
  by (simp add: dayFirst_def isSep_def parseInt_def isWhite_def isWhite2_def isWhite3_def
      isDigit_def digitsValue_def)

lemma dayFirst_textual: "dayFirst E ''Nov 30, 2025'' = None"
  by (simp add: dayFirst_def isSep_def)

lemma InLeapYear_2025: "InLeapYear 2025 = False"
  by (simp add: InLeapYear_def)

lemma DayFromYear_2025: "DayFromYear 2025 = 20089"
  by (simp add: DayFromYear_def)

lemma monthStart_november: "monthStart 10 False = 304"
  by (simp add: monthStart_def)

lemma MakeDay_example: "MakeDay 2025 10 30 = Some 20422"
  by (simp add: MakeDay_def Let_def InLeapYear_2025 DayFromYear_2025 monthStart_november
      TimeClip_def msPerDay_def)

lemma newDate_ymd_example: "newDate_ymd exampleEnv 2025 10 30 = Some nov30"
  by (simp add: newDate_ymd_def MakeDay_example TimeClip_def msPerDay_def exampleEnv_def
      nov30_def)

lemma native_example:
  "nativeParse exampleEnv ''30/11/2025'' = None \<and>
   nativeParse exampleEnv ''Nov 30, 2025'' = newDate_ymd exampleEnv 2025 10 30"
  by (simp add: newDate_ymd_example) (simp add: exampleEnv_def exampleParse_def)

text \<open>
  Claim C4, where the code departs from it. Let the native parser reject \<^verbatim>\<open>30/11/2025\<close> and
  read \<^verbatim>\<open>Nov 30, 2025\<close> as that day at local midnight. The scheduling loop then resolves the
  two strings to the same date, by the day-first reading. \<^verbatim>\<open>calculateExpiryStatus\<close> does not:
  it resolves the textual string to the date and the day-first string to an Invalid Date,
  and classifies the day-first string as fresh at every clock reading.
\<close>

theorem C4_classification_skips_day_first:
  assumes "nativeParse E ''30/11/2025'' = None"
    and "nativeParse E ''Nov 30, 2025'' = newDate_ymd E 2025 10 30"
  shows "scheduleDate E ''30/11/2025'' = Inr (newDate_ymd E 2025 10 30) \<and>
         scheduleDate E ''Nov 30, 2025'' = Inr (newDate_ymd E 2025 10 30) \<and>
         statusDate E ''Nov 30, 2025'' = Some (newDate_ymd E 2025 10 30) \<and>
         statusDate E ''30/11/2025'' = Some None \<and>
         calculateExpiryStatus E now (Some ''30/11/2025'') = Fresh"
proof -
  have a: "scheduleDate E ''30/11/2025'' = Inr (newDate_ymd E 2025 10 30)"
    using assms(1) by (simp only: scheduleDate_def newDate_string_def dayFirst_30_11_2025) simp
  have b: "scheduleDate E ''Nov 30, 2025'' = Inr (newDate_ymd E 2025 10 30)"
    using assms(2) by (simp only: scheduleDate_def newDate_string_def dayFirst_textual) simp
  have c: "statusDate E ''Nov 30, 2025'' = Some (newDate_ymd E 2025 10 30)"
    using assms(2) by (simp add: statusDate_def newDate_string_def)
  have d: "statusDate E ''30/11/2025'' = Some None"
    using assms(1) by (simp add: statusDate_def newDate_string_def)
  have "calculateExpiryStatus E now (Some ''30/11/2025'') = Fresh"
    using d by (simp add: calculateExpiryStatus_def)
  with a b c d show ?thesis by simp
qed

theorem C4_classification_skips_day_first_witness:
  "scheduleDate exampleEnv ''30/11/2025'' = Inr (Some nov30) \<and>
   scheduleDate exampleEnv ''Nov 30, 2025'' = Inr (Some nov30) \<and>
   statusDate exampleEnv ''Nov 30, 2025'' = Some (Some nov30) \<and>
   statusDate exampleEnv ''30/11/2025'' = Some None \<and>
   calculateExpiryStatus exampleEnv dec1 (Some ''30/11/2025'') = Fresh \<and>
   calculateExpiryStatus exampleEnv dec1 (Some ''Nov 30, 2025'') = Expired"
  using C4_classification_skips_day_first
    [OF native_example [THEN conjunct1] native_example [THEN conjunct2], of dec1]
    status_milk
  by (simp add: newDate_ymd_example)

text \<open>
  Claim C1, where the code departs from it. Take a string that the native parser rejects
  and the day-first reading resolves, as the scheduling loop does, to a date at most three
  days ahead or past. The number of days is the ceiling of the difference of the two
  midnights over one day, so the claim asks for expiring or expired;
  \<^verbatim>\<open>calculateExpiryStatus\<close> returns fresh.
\<close>

theorem C1_day_first_date_stays_fresh:
  assumes "s \<noteq> []"
    and "nativeParse E s = None"
    and "scheduleDate E s = Inr (Some t)"
    and "setHours E 0 t = Some e"
    and "setHours E 0 now = Some today"
    and "\<lceil>real_of_int (e - today) / real_of_int msPerDay\<rceil> \<le> 3"
  shows "daysUntilExpiry E now t = Some \<lceil>real_of_int (e - today) / real_of_int msPerDay\<rceil> \<and>
         calculateExpiryStatus E now (Some s) = Fresh \<and>
         (if \<lceil>real_of_int (e - today) / real_of_int msPerDay\<rceil> < 0 then Expired
          else if \<lceil>real_of_int (e - today) / real_of_int msPerDay\<rceil> \<le> 3 then Expiring
          else Fresh) \<noteq> Fresh"
proof -
  have d: "daysUntilExpiry E now t = Some \<lceil>real_of_int (e - today) / real_of_int msPerDay\<rceil>"
    using assms(4,5) by (simp add: daysUntilExpiry_def ceilDays_ceiling)
  have f: "calculateExpiryStatus E now (Some s) = Fresh"
    using assms(1,2) by (simp add: calculateExpiryStatus_def statusDate_def newDate_string_def)
  from d f assms(6) show ?thesis by simp
qed

theorem C1_day_first_date_stays_fresh_witness:
  "scheduleDate exampleEnv ''30/11/2025'' = Inr (Some nov30) \<and>
   daysUntilExpiry exampleEnv dec1 nov30 = Some (- 1) \<and>
   calculateExpiryStatus exampleEnv dec1 (Some ''30/11/2025'') = Fresh \<and>
   calculateExpiryStatus exampleEnv dec1 (Some ''Nov 30, 2025'') = Expired"
proof -
  have a: "''30/11/2025'' \<noteq> []" by simp
  have b: "nativeParse exampleEnv ''30/11/2025'' = None"
    by (simp add: exampleEnv_def exampleParse_def)
  have c: "scheduleDate exampleEnv ''30/11/2025'' = Inr (Some nov30)"
    using b by (simp only: scheduleDate_def newDate_string_def dayFirst_30_11_2025
        newDate_ymd_example) simp
  have g: "\<lceil>real_of_int (nov30 - (nov30 + msPerDay)) / real_of_int msPerDay\<rceil> \<le> 3"
    by (simp add: msPerDay_def ceiling_def)
  show ?thesis
    using C1_day_first_date_stays_fresh [OF a b c milk_midnight dec1_midnight g] c status_milk
    by (simp add: msPerDay_def ceiling_def)
qed

lemma first_attempted: "rs \<noteq> [] \<Longrightarrow> hd rs \<in> set (uptoRefusal E rs)"
  by (cases rs) simp_all

text \<open>
  Claim C10. In \<^verbatim>\<open>calculateExpiryStatus\<close> the construction of the date never throws, so the
  date the function works with is the native one for every string, and the day-first
  reading in the \<^verbatim>\<open>catch\<close> is never consulted: every string the native parser rejects is
  classified fresh. The scheduling loop guards its day-first reading by the validity of the
  native date instead, so it resolves such a string whenever the reading gives a date; for
  \<^verbatim>\<open>30/11/2025\<close> it resolves to 30 November 2025 and, when that day is not past, attempts
  the reminder for the day of expiry.
\<close>

theorem C10_catch_unreachable:
  "(\<exists>d. newDate_string E s = Inr d) \<and>
   statusDate E s = Some (nativeParse E s) \<and>
   (nativeParse E s = None \<longrightarrow> calculateExpiryStatus E now (Some s) = Fresh) \<and>
   (nativeParse E s = None \<longrightarrow> dayFirst E s = Some (Some t) \<longrightarrow>
      scheduleDate E s = Inr (Some t)) \<and>
   (nativeParse E ''30/11/2025'' = None \<longrightarrow>
      calculateExpiryStatus E now (Some ''30/11/2025'') = Fresh \<and>
      scheduleDate E ''30/11/2025'' = Inr (newDate_ymd E 2025 10 30)) \<and>
   (nativeParse E ''30/11/2025'' = None \<longrightarrow>
    expiry_date item = Some ''30/11/2025'' \<longrightarrow>
    newDate_ymd E 2025 10 30 = Some t \<longrightarrow>
    numGe (ceilDays (setHours E 0 t) today) 0 \<longrightarrow>
      expiresToday item (Option.bind (setHours E 0 t) (setHours E 9))
        \<in> set (attempts (scheduleItem E today st item)))"
proof -
  have throws: "\<exists>d. newDate_string E s = Inr d"
    by (simp add: newDate_string_def)
  have same: "statusDate E s = Some (nativeParse E s)" for s
    by (simp add: statusDate_def newDate_string_def)
  have fresh: "calculateExpiryStatus E now (Some s) = Fresh" if "nativeParse E s = None" for s
    using that by (simp add: calculateExpiryStatus_def same)
  have loop: "scheduleDate E s = Inr (Some t)"
    if "nativeParse E s = None" "dayFirst E s = Some (Some t)"
    using that by (simp add: scheduleDate_def newDate_string_def)
  have ymd: "scheduleDate E ''30/11/2025'' = Inr (newDate_ymd E 2025 10 30)"
    if "nativeParse E ''30/11/2025'' = None"
    using that by (simp only: scheduleDate_def newDate_string_def dayFirst_30_11_2025) simp
  have reminder: "expiresToday item (Option.bind (setHours E 0 t) (setHours E 9))
        \<in> set (attempts (scheduleItem E today st item))"
    if n: "nativeParse E ''30/11/2025'' = None"
      and i: "expiry_date item = Some ''30/11/2025''"
      and d: "newDate_ymd E 2025 10 30 = Some t"
      and g: "numGe (ceilDays (setHours E 0 t) today) 0"
  proof -
    have "itemPlan E today item = itemRequests E today item t"
      using i ymd [OF n] d by (simp add: itemPlan_def)
    then have "itemPlan E today item \<noteq> [] \<and>
        hd (itemPlan E today item) =
          expiresToday item (Option.bind (setHours E 0 t) (setHours E 9))"
      using g by (simp add: itemRequests_def Let_def)
    then have "expiresToday item (Option.bind (setHours E 0 t) (setHours E 9))
        \<in> set (uptoRefusal E (itemPlan E today item))"
      using first_attempted [of "itemPlan E today item" E] by simp
    then show ?thesis by (simp add: attempts_scheduleItem)
  qed
  show ?thesis
    apply (intro conjI impI)
    subgoal by (rule throws)
    subgoal by (rule same)
    subgoal by (rule fresh)
    subgoal by (rule loop)
    subgoal by (rule fresh)
    subgoal by (rule ymd)
    subgoal by (rule reminder)
    done
qed

theorem C10_catch_unreachable_witness:
  "statusDate exampleEnv ''30/11/2025'' = Some None \<and>
   calculateExpiryStatus exampleEnv (nov30 - 5 * msPerDay) (Some ''30/11/2025'') = Fresh \<and>
   scheduleDate exampleEnv ''30/11/2025'' = Inr (Some nov30) \<and>
   expiresToday yoghurt (Some (nov30 + 9 * msPerHour))
     \<in> set (attempts (scheduleItem exampleEnv (Some (nov30 - 5 * msPerDay)) emptyNotif yoghurt))"
proof -
  note th = C10_catch_unreachable [of exampleEnv "''30/11/2025''" "nov30 - 5 * msPerDay"
      nov30 yoghurt "Some (nov30 - 5 * msPerDay)" emptyNotif]
  have n: "nativeParse exampleEnv ''30/11/2025'' = None"
    by (simp add: exampleEnv_def exampleParse_def)
  have i: "expiry_date yoghurt = Some ''30/11/2025''" by (simp add: yoghurt_def)
  have g: "numGe (ceilDays (setHours exampleEnv 0 nov30) (Some (nov30 - 5 * msPerDay))) 0"
    by (simp add: milk_midnight milk_days numGe_def)
  have t9: "Option.bind (setHours exampleEnv 0 nov30) (setHours exampleEnv 9)
      = Some (nov30 + 9 * msPerHour)"
    by (simp add: setHours_example nov30_def msPerHour_def)
  have a: "statusDate exampleEnv ''30/11/2025'' = Some None"
    using th [THEN conjunct2, THEN conjunct1] by (simp only: n)
  have b: "calculateExpiryStatus exampleEnv (nov30 - 5 * msPerDay) (Some ''30/11/2025'') = Fresh"
    using th [THEN conjunct2, THEN conjunct2, THEN conjunct1] n by (rule mp)
  have c: "scheduleDate exampleEnv ''30/11/2025'' = Inr (Some nov30)"
    using th [THEN conjunct2, THEN conjunct2, THEN conjunct2, THEN conjunct2,
        THEN conjunct1, THEN mp, OF n, THEN conjunct2]
    by (simp only: newDate_ymd_example)
  have d: "expiresToday yoghurt (Option.bind (setHours exampleEnv 0 nov30) (setHours exampleEnv 9))
     \<in> set (attempts (scheduleItem exampleEnv (Some (nov30 - 5 * msPerDay)) emptyNotif yoghurt))"
    using th [THEN conjunct2, THEN conjunct2, THEN conjunct2, THEN conjunct2,
        THEN conjunct2, THEN mp, OF n, THEN mp, OF i, THEN mp, OF newDate_ymd_example,
        THEN mp, OF g] .
  from a b c d show ?thesis by (simp only: t9)
qed

end
